theory Spec2Isabelle
  imports Main "HOL-Library.Word"
begin

section \<open>The watchdog context of z\_wdt.c\<close>

text \<open>
  The embedding follows \<^verbatim>\<open>z_wdt.c\<close> function by function. The global
  \<^verbatim>\<open>g_watchdog_ctx\<close> is passed in and returned explicitly. The platform layer is
  external to the core: the value returned by \<^verbatim>\<open>watchdog_get_ticks()\<close> is the
  parameter \<open>now\<close>, the value returned by \<^verbatim>\<open>watchdog_os_init()\<close> is the
  parameter \<open>os_rc\<close>, and logging has no effect on the context and is left out.

  \<^verbatim>\<open>int64_t\<close> is a 64-bit word read with \<open>sint\<close>, \<^verbatim>\<open>uint32_t\<close> a 32-bit
  word, a C \<^verbatim>\<open>int\<close> an \<open>int\<close>. A data pointer and a function pointer are
  addresses, with \<open>NULL\<close> the address 0.
\<close>

type_synonym pointer = nat

definition NULL :: pointer where
  "NULL = 0"

text \<open>The capacity of the channel table, \<^verbatim>\<open>#define WATCHDOG_MAX_CHANNELS 16\<close> in \<^verbatim>\<open>z_wdt.h\<close>.\<close>

definition WATCHDOG_MAX_CHANNELS :: nat where
  "WATCHDOG_MAX_CHANNELS = 16"

definition INT64_MAX :: "64 word" where
  "INT64_MAX = 0x7FFFFFFFFFFFFFFF"

record watchdog_channel =
  reload_period :: "32 word"
  timeout_abs_ticks :: "64 word"
  user_data :: pointer
  callback :: pointer
  active :: bool

text \<open>
  The array \<^verbatim>\<open>channels[WATCHDOG_MAX_CHANNELS]\<close> is a map from the index to the
  slot. The code only indexes it inside loops bounded by \<open>WATCHDOG_MAX_CHANNELS\<close> or
  behind the range check on \<^verbatim>\<open>channel_id\<close>, and so does the model.
\<close>

record watchdog_context =
  channels :: "nat \<Rightarrow> watchdog_channel"
  current_ticks :: "64 word"
  next_timeout_channel :: int
  next_timeout_ticks :: "64 word"
  initialized :: bool
  timer_running :: bool

text \<open>What \<^verbatim>\<open>= {0}\<close> and \<^verbatim>\<open>memset(&g_watchdog_ctx, 0, ...)\<close> leave behind.\<close>

definition zero_channel :: watchdog_channel where
  "zero_channel =
     \<lparr>reload_period = 0, timeout_abs_ticks = 0, user_data = NULL, callback = NULL,
      active = False\<rparr>"

definition zero_context :: watchdog_context where
  "zero_context =
     \<lparr>channels = (\<lambda>i. zero_channel), current_ticks = 0, next_timeout_channel = 0,
      next_timeout_ticks = 0, initialized = False, timer_running = False\<rparr>"

subsection \<open>Internal utility functions\<close>

definition watchdog_ms_to_ticks :: "32 word \<Rightarrow> 64 word" where
  "watchdog_ms_to_ticks ms = ucast ms"

text \<open>
  The loop of \<^verbatim>\<open>watchdog_get_next_timeout_channel\<close> over the ids still to visit,
  with its two local variables.
\<close>

fun next_timeout_scan :: "watchdog_context \<Rightarrow> nat list \<Rightarrow> int \<Rightarrow> 64 word \<Rightarrow> int" where
  "next_timeout_scan ctx [] next_channel next_timeout = next_channel"
| "next_timeout_scan ctx (i # ids) next_channel next_timeout =
     (if active (channels ctx i)
         \<and> sint (timeout_abs_ticks (channels ctx i)) < sint next_timeout
      then next_timeout_scan ctx ids (int i) (timeout_abs_ticks (channels ctx i))
      else next_timeout_scan ctx ids next_channel next_timeout)"

definition watchdog_get_next_timeout_channel :: "watchdog_context \<Rightarrow> int" where
  "watchdog_get_next_timeout_channel ctx =
     next_timeout_scan ctx [0..<WATCHDOG_MAX_CHANNELS] (- 1) INT64_MAX"

definition watchdog_schedule_next_timeout :: "watchdog_context \<Rightarrow> watchdog_context" where
  "watchdog_schedule_next_timeout ctx =
     (let next_channel = watchdog_get_next_timeout_channel ctx in
      if next_channel \<ge> 0
      then ctx\<lparr>next_timeout_channel := next_channel,
               next_timeout_ticks := timeout_abs_ticks (channels ctx (nat next_channel))\<rparr>
      else ctx\<lparr>next_timeout_channel := - 1, next_timeout_ticks := INT64_MAX\<rparr>)"

subsection \<open>Public API\<close>

text \<open>
  \<^verbatim>\<open>z_wdt_init\<close>: the context is reset and marked initialized before the OS layer
  is started; \<open>os_rc\<close> is what \<^verbatim>\<open>watchdog_os_init()\<close> returns.
\<close>

definition z_wdt_init :: "int \<Rightarrow> watchdog_context \<Rightarrow> int \<times> watchdog_context" where
  "z_wdt_init os_rc ctx =
     (if initialized ctx then (0, ctx)
      else
        let ctx1 = zero_context\<lparr>next_timeout_channel := - 1,
                                next_timeout_ticks := INT64_MAX,
                                initialized := True,
                                timer_running := True\<rparr>
        in if os_rc \<noteq> 0 then (- 1, ctx1) else (0, ctx1))"

definition z_wdt_feed :: "64 word \<Rightarrow> watchdog_context \<Rightarrow> int \<Rightarrow> int \<times> watchdog_context" where
  "z_wdt_feed now ctx channel_id =
     (if \<not> initialized ctx then (- 1, ctx)
      else if channel_id < 0 \<or> channel_id \<ge> int WATCHDOG_MAX_CHANNELS then (- 1, ctx)
      else if \<not> active (channels ctx (nat channel_id)) then (- 1, ctx)
      else
        let ch = channels ctx (nat channel_id);
            ctx1 = ctx\<lparr>channels := (channels ctx)
                     (nat channel_id := ch\<lparr>timeout_abs_ticks :=
                        now + watchdog_ms_to_ticks (reload_period ch)\<rparr>)\<rparr>
        in (0, watchdog_schedule_next_timeout ctx1))"

text \<open>
  The search loop of \<^verbatim>\<open>z_wdt_add\<close> over the ids still to visit. The first
  inactive slot is filled, fed through \<^verbatim>\<open>z_wdt_feed(id)\<close> (whose return value the
  code drops) and its index returned; running out of ids returns -1.
\<close>

fun add_scan ::
  "64 word \<Rightarrow> 32 word \<Rightarrow> pointer \<Rightarrow> pointer \<Rightarrow> nat list \<Rightarrow> watchdog_context
     \<Rightarrow> int \<times> watchdog_context" where
  "add_scan now period cb ud [] ctx = (- 1, ctx)"
| "add_scan now period cb ud (i # ids) ctx =
     (if \<not> active (channels ctx i)
      then
        let ctx1 = ctx\<lparr>channels := (channels ctx)
                     (i := (channels ctx i)
                        \<lparr>reload_period := period,
                         user_data := ud,
                         timeout_abs_ticks := INT64_MAX,
                         callback := cb,
                         active := True\<rparr>)\<rparr>;
            ctx2 = snd (z_wdt_feed now ctx1 (int i))
        in (int i, ctx2)
      else add_scan now period cb ud ids ctx)"

definition z_wdt_add ::
  "64 word \<Rightarrow> watchdog_context \<Rightarrow> 32 word \<Rightarrow> pointer \<Rightarrow> pointer \<Rightarrow> int \<times> watchdog_context" where
  "z_wdt_add now ctx period cb ud =
     (if \<not> initialized ctx then (- 1, ctx)
      else if period = 0 then (- 1, ctx)
      else add_scan now period cb ud [0..<WATCHDOG_MAX_CHANNELS] ctx)"

definition z_wdt_delete :: "watchdog_context \<Rightarrow> int \<Rightarrow> int \<times> watchdog_context" where
  "z_wdt_delete ctx channel_id =
     (if \<not> initialized ctx then (- 1, ctx)
      else if channel_id < 0 \<or> channel_id \<ge> int WATCHDOG_MAX_CHANNELS then (- 1, ctx)
      else if active (channels ctx (nat channel_id))
      then
        let ctx1 = ctx\<lparr>channels := (channels ctx)
                     (nat channel_id := (channels ctx (nat channel_id))
                        \<lparr>active := False,
                         reload_period := 0,
                         callback := NULL,
                         user_data := NULL\<rparr>)\<rparr>
        in (0, watchdog_schedule_next_timeout ctx1)
      else (- 1, ctx))"

definition z_wdt_suspend :: "watchdog_context \<Rightarrow> watchdog_context" where
  "z_wdt_suspend ctx =
     (if \<not> initialized ctx then ctx else ctx\<lparr>timer_running := False\<rparr>)"

text \<open>The re-feeding loop of \<^verbatim>\<open>z_wdt_resume\<close> over the ids still to visit.\<close>

fun resume_scan :: "64 word \<Rightarrow> nat list \<Rightarrow> watchdog_context \<Rightarrow> watchdog_context" where
  "resume_scan now [] ctx = ctx"
| "resume_scan now (i # ids) ctx =
     resume_scan now ids
       (if active (channels ctx i)
        then ctx\<lparr>channels := (channels ctx)
               (i := (channels ctx i)\<lparr>timeout_abs_ticks :=
                  now + watchdog_ms_to_ticks (reload_period (channels ctx i))\<rparr>)\<rparr>
        else ctx)"

definition z_wdt_resume :: "64 word \<Rightarrow> watchdog_context \<Rightarrow> watchdog_context" where
  "z_wdt_resume now ctx =
     (if \<not> initialized ctx then ctx
      else
        let ctx1 = resume_scan now [0..<WATCHDOG_MAX_CHANNELS] ctx;
            ctx2 = ctx1\<lparr>timer_running := True\<rparr>
        in watchdog_schedule_next_timeout ctx2)"

definition z_wdt_cleanup :: "watchdog_context \<Rightarrow> watchdog_context" where
  "z_wdt_cleanup ctx = (if initialized ctx then ctx\<lparr>initialized := False\<rparr> else ctx)"

subsection \<open>The expiry sweep\<close>

text \<open>
  A registered callback is user code reached through a function pointer. What the code
  at an address does to the watchdog context when called with \<open>(channel_id, user_data)\<close>
  is given by the environment \<open>cbs\<close>; the sweep also records each call it makes, in
  order, as \<open>(callback, channel_id, user_data)\<close>. \<^verbatim>\<open>exit(1)\<close> ends the process:
  the sweep does not return, which is the value \<open>Inl (Exit 1)\<close>.
\<close>

type_synonym callbacks = "pointer \<Rightarrow> int \<Rightarrow> pointer \<Rightarrow> watchdog_context \<Rightarrow> watchdog_context"

type_synonym invocation = "pointer \<times> int \<times> pointer"

datatype fatal = Exit int

fun process_scan ::
  "callbacks \<Rightarrow> 64 word \<Rightarrow> nat list \<Rightarrow> watchdog_context \<Rightarrow> invocation list
     \<Rightarrow> fatal + watchdog_context \<times> invocation list" where
  "process_scan cbs now [] ctx calls = Inr (ctx, calls)"
| "process_scan cbs now (i # ids) ctx calls =
     (if active (channels ctx i)
         \<and> sint (timeout_abs_ticks (channels ctx i)) \<le> sint now
      then
        if callback (channels ctx i) \<noteq> NULL
        then
          let ctx1 = cbs (callback (channels ctx i)) (int i) (user_data (channels ctx i)) ctx;
              ctx2 = ctx1\<lparr>channels := (channels ctx1)
                       (i := (channels ctx1 i)\<lparr>active := False\<rparr>)\<rparr>
          in process_scan cbs now ids ctx2
               (calls @ [(callback (channels ctx i), int i, user_data (channels ctx i))])
        else Inl (Exit 1)
      else process_scan cbs now ids ctx calls)"

definition z_wdt_process ::
  "callbacks \<Rightarrow> 64 word \<Rightarrow> watchdog_context \<Rightarrow> fatal + watchdog_context \<times> invocation list" where
  "z_wdt_process cbs now ctx =
     (if \<not> initialized ctx \<or> \<not> timer_running ctx then Inr (ctx, [])
      else
        case process_scan cbs now [0..<WATCHDOG_MAX_CHANNELS] ctx [] of
          Inl e \<Rightarrow> Inl e
        | Inr (ctx1, calls) \<Rightarrow> Inr (watchdog_schedule_next_timeout ctx1, calls))"

text \<open>The calls a sweep made for channel \<open>i\<close>.\<close>

definition calls_for :: "nat \<Rightarrow> invocation list \<Rightarrow> invocation list" where
  "calls_for i calls = filter (\<lambda>c. fst (snd c) = int i) calls"

subsection \<open>Locking\<close>

text \<open>
  The calls of \<^verbatim>\<open>watchdog_mutex_lock()\<close> and \<^verbatim>\<open>watchdog_mutex_unlock()\<close> and the
  statements that read or write \<^verbatim>\<open>g_watchdog_ctx.channels\<close>, in the order in which
  one call of \<^verbatim>\<open>z_wdt_feed\<close>, \<^verbatim>\<open>z_wdt_delete\<close> or \<^verbatim>\<open>z_wdt_add\<close> makes
  them. In \<^verbatim>\<open>z_wdt_feed\<close>: the test of \<open>active\<close>, the store of the deadline, the scan
  of \<^verbatim>\<open>watchdog_schedule_next_timeout\<close>. In \<^verbatim>\<open>z_wdt_delete\<close>: the lock, the test
  of \<open>active\<close>, the stores into the slot, the scan, the unlock. In \<^verbatim>\<open>z_wdt_add\<close>:
  the lock, one test of \<open>active\<close> per slot visited, the stores into the free slot, the
  events of the nested \<^verbatim>\<open>z_wdt_feed(id)\<close>, the unlock.
\<close>

datatype sync_event = Lock | Unlock | Table_read | Table_write

definition z_wdt_feed_events :: "watchdog_context \<Rightarrow> int \<Rightarrow> sync_event list" where
  "z_wdt_feed_events ctx channel_id =
     (if \<not> initialized ctx then []
      else if channel_id < 0 \<or> channel_id \<ge> int WATCHDOG_MAX_CHANNELS then []
      else if \<not> active (channels ctx (nat channel_id)) then [Table_read]
      else [Table_read, Table_write, Table_read])"

definition z_wdt_delete_events :: "watchdog_context \<Rightarrow> int \<Rightarrow> sync_event list" where
  "z_wdt_delete_events ctx channel_id =
     (if \<not> initialized ctx then []
      else if channel_id < 0 \<or> channel_id \<ge> int WATCHDOG_MAX_CHANNELS then []
      else if active (channels ctx (nat channel_id))
      then [Lock, Table_read, Table_write, Table_read, Unlock]
      else [Lock, Table_read, Unlock])"

fun add_scan_events ::
  "32 word \<Rightarrow> pointer \<Rightarrow> pointer \<Rightarrow> nat list \<Rightarrow> watchdog_context \<Rightarrow> sync_event list" where
  "add_scan_events period cb ud [] ctx = [Unlock]"
| "add_scan_events period cb ud (i # ids) ctx =
     (if \<not> active (channels ctx i)
      then
        let ctx1 = ctx\<lparr>channels := (channels ctx)
                     (i := (channels ctx i)
                        \<lparr>reload_period := period,
                         user_data := ud,
                         timeout_abs_ticks := INT64_MAX,
                         callback := cb,
                         active := True\<rparr>)\<rparr>
        in [Table_read, Table_write] @ z_wdt_feed_events ctx1 (int i) @ [Unlock]
      else Table_read # add_scan_events period cb ud ids ctx)"

definition z_wdt_add_events ::
  "watchdog_context \<Rightarrow> 32 word \<Rightarrow> pointer \<Rightarrow> pointer \<Rightarrow> sync_event list" where
  "z_wdt_add_events ctx period cb ud =
     (if \<not> initialized ctx then []
      else if period = 0 then []
      else Lock # add_scan_events period cb ud [0..<WATCHDOG_MAX_CHANNELS] ctx)"

text \<open>
  A sequence of events keeps the lock discipline when every read and write of the
  table happens while the mutex is held; \<open>held\<close> says whether it is held at the start.
\<close>

fun lock_discipline :: "bool \<Rightarrow> sync_event list \<Rightarrow> bool" where
  "lock_discipline held [] = True"
| "lock_discipline held (Lock # es) = lock_discipline True es"
| "lock_discipline held (Unlock # es) = lock_discipline False es"
| "lock_discipline held (Table_read # es) = (held \<and> lock_discipline held es)"
| "lock_discipline held (Table_write # es) = (held \<and> lock_discipline held es)"

section \<open>Example contexts\<close>

text \<open>
  Contexts built through the API, as the test program does: \<^verbatim>\<open>z_wdt_init()\<close> with a
  working OS layer, then channel 0 added at tick 0 with period 1500, the callback at
  address 7 and the user data at address 9.
\<close>

definition ctx_init :: watchdog_context where
  "ctx_init = snd (z_wdt_init 0 zero_context)"

definition ctx_one :: watchdog_context where
  "ctx_one = snd (z_wdt_add 0 ctx_init 1500 7 9)"

text \<open>Callbacks that do not touch the watchdog, like the one of the test program.\<close>

definition quiet_callbacks :: callbacks where
  "quiet_callbacks f j u c = c"

text \<open>
  A second channel (period 1000, callback at address 8) added to \<open>ctx_one\<close> at
  tick 0, and a context whose only channel has no callback, as
  \<^verbatim>\<open>z_wdt_add(1000, NULL, NULL)\<close> of the test program makes one.
\<close>

definition ctx_two :: watchdog_context where
  "ctx_two = snd (z_wdt_add 0 ctx_one 1000 8 0)"



text \<open>
  Callbacks that call back into the API at tick 2000: every callback feeds the channel
  it is called for (\<open>refeed_callbacks\<close>); the callback at address 7 feeds channel 1
  (\<open>rescue_callbacks\<close>).
\<close>

definition refeed_callbacks :: callbacks where
  "refeed_callbacks f j u c = snd (z_wdt_feed 2000 c j)"

definition rescue_callbacks :: callbacks where
  "rescue_callbacks f j u c = (if f = 7 then snd (z_wdt_feed 2000 c 1) else c)"

text \<open>
  The full table of \<^verbatim>\<open>test_maximum_channels\<close>: \<open>WATCHDOG_MAX_CHANNELS\<close> adds in a
  row on a fresh context.
\<close>

fun add_channels :: "nat \<Rightarrow> watchdog_context \<Rightarrow> watchdog_context" where
  "add_channels 0 ctx = ctx"
| "add_channels (Suc n) ctx = add_channels n (snd (z_wdt_add 0 ctx 1000 7 0))"

definition ctx_full :: watchdog_context where
  "ctx_full = add_channels WATCHDOG_MAX_CHANNELS ctx_init"

section \<open>Properties of slots\<close>

text \<open>
  A slot that carries no data: callback, user data and period reset, and the deadline
  at one of the two values the code ever resets a deadline to (0 by \<^verbatim>\<open>memset\<close>,
  \<open>INT64_MAX\<close> in \<^verbatim>\<open>z_wdt_add\<close>). A context has no stale data when every
  inactive slot of the table is such a slot.
\<close>

definition slot_cleared :: "watchdog_channel \<Rightarrow> bool" where
  "slot_cleared ch \<longleftrightarrow>
     callback ch = NULL \<and> user_data ch = NULL \<and> reload_period ch = 0
     \<and> (timeout_abs_ticks ch = 0 \<or> timeout_abs_ticks ch = INT64_MAX)"

definition no_stale_data :: "watchdog_context \<Rightarrow> bool" where
  "no_stale_data ctx \<longleftrightarrow>
     (\<forall>i \<in> set [0..<WATCHDOG_MAX_CHANNELS].
        \<not> active (channels ctx i) \<longrightarrow> slot_cleared (channels ctx i))"

section \<open>Basic facts\<close>

lemma channel_ids:
  "[0..<WATCHDOG_MAX_CHANNELS] = [0, 1, 2, 3, 4, 5, 6, 7, 8, 9, 10, 11, 12, 13, 14, 15]"
  by (simp add: WATCHDOG_MAX_CHANNELS_def upt_rec)

lemma schedule_channels [simp]:
  "channels (watchdog_schedule_next_timeout ctx) = channels ctx"
  by (simp add: watchdog_schedule_next_timeout_def Let_def)

lemma schedule_initialized [simp]:
  "initialized (watchdog_schedule_next_timeout ctx) = initialized ctx"
  by (simp add: watchdog_schedule_next_timeout_def Let_def)

lemma schedule_timer_running [simp]:
  "timer_running (watchdog_schedule_next_timeout ctx) = timer_running ctx"
  by (simp add: watchdog_schedule_next_timeout_def Let_def)

lemma int_max_channels: "int WATCHDOG_MAX_CHANNELS = 16"
  by (simp add: WATCHDOG_MAX_CHANNELS_def)

lemma channel_ids_split:
  assumes "k < WATCHDOG_MAX_CHANNELS"
  shows "[0..<WATCHDOG_MAX_CHANNELS] = [0..<k] @ k # [Suc k..<WATCHDOG_MAX_CHANNELS]"
proof -
  have "[0..<WATCHDOG_MAX_CHANNELS] = [0..<k] @ [k..<WATCHDOG_MAX_CHANNELS]"
    using assms upt_add_eq_append [of 0 k "WATCHDOG_MAX_CHANNELS - k"] by simp
  then show ?thesis using assms by (simp add: upt_conv_Cons)
qed

lemma ctx_init_simps:
  "initialized ctx_init" "timer_running ctx_init" "channels ctx_init = (\<lambda>i. zero_channel)"
  by (simp_all add: ctx_init_def z_wdt_init_def zero_context_def Let_def)

lemma ctx_one_simps:
  "initialized ctx_one" "timer_running ctx_one"
  "channels ctx_one =
     (\<lambda>i. zero_channel)(0 := \<lparr>reload_period = 1500, timeout_abs_ticks = 1500,
                               user_data = 9, callback = 7, active = True\<rparr>)"
  by (simp_all add: ctx_one_def z_wdt_add_def channel_ids ctx_init_simps zero_channel_def
        z_wdt_feed_def Let_def int_max_channels watchdog_ms_to_ticks_def)

lemma ctx_two_simps:
  "initialized ctx_two" "timer_running ctx_two"
  "channels ctx_two =
     (\<lambda>i. zero_channel)
       (0 := \<lparr>reload_period = 1500, timeout_abs_ticks = 1500,
              user_data = 9, callback = 7, active = True\<rparr>,
        1 := \<lparr>reload_period = 1000, timeout_abs_ticks = 1000,
              user_data = 0, callback = 8, active = True\<rparr>)"
  by (simp_all add: ctx_two_def z_wdt_add_def channel_ids ctx_one_simps zero_channel_def
        z_wdt_feed_def Let_def int_max_channels watchdog_ms_to_ticks_def)



text \<open>
  Signed overflow is undefined in C; the addition of the model wraps around. As long
  as \<open>now + period\<close> does not exceed \<open>INT64_MAX\<close> the deadline that
  \<^verbatim>\<open>z_wdt_feed\<close> and \<^verbatim>\<open>z_wdt_resume\<close> store reads as that integer sum.
\<close>

lemma sint_ms_to_ticks: "sint (watchdog_ms_to_ticks ms) = uint ms"
proof -
  have "uint ms < 2 ^ 32" using uint_bounded [of ms] by simp
  then have b: "uint ms < 2 ^ 63" by simp
  have "sint (ucast ms :: 64 word) = signed_take_bit 63 (uint ms)"
    by (simp add: signed_ucast_eq)
  also have "\<dots> = uint ms"
  proof (rule signed_take_bit_int_eq_self)
    show "- (2 ^ 63) \<le> uint ms"
      using order_trans [of "- (2 ^ 63) :: int" 0 "uint ms"] by simp
    show "uint ms < 2 ^ 63" by (rule b)
  qed
  finally show ?thesis by (simp add: watchdog_ms_to_ticks_def)
qed

lemma deadline_no_wrap:
  assumes "sint now + uint period \<le> sint INT64_MAX"
  shows "sint (now + watchdog_ms_to_ticks period) = sint now + uint period"
proof -
  have lo: "- (2 ^ 63) \<le> sint now" using sint_ge [of now] by simp
  have nn: "0 \<le> uint period" by simp
  have hi: "sint now + uint period < 2 ^ 63" using assms by (simp add: INT64_MAX_def)
  have "sint (now + watchdog_ms_to_ticks period)
        = signed_take_bit 63 (sint now + sint (watchdog_ms_to_ticks period))"
    by (simp add: sint_word_ariths)
  also have "\<dots> = signed_take_bit 63 (sint now + uint period)"
    by (simp add: sint_ms_to_ticks)
  also have "\<dots> = sint now + uint period"
  proof (rule signed_take_bit_int_eq_self)
    show "- (2 ^ 63) \<le> sint now + uint period"
      using add_mono [OF lo nn] by simp
    show "sint now + uint period < 2 ^ 63" by (rule hi)
  qed
  finally show ?thesis .
qed

section \<open>Feeding a channel\<close>

text \<open>
  Claim C2. On an initialized context, \<^verbatim>\<open>z_wdt_feed(id)\<close> for an id in range whose
  slot is active returns 0 and stores \<open>now + period\<close> as the deadline of that slot,
  with the period the slot holds. Nothing is assumed about the old deadline, so the
  time that remained plays no part. No other field of the slot, no other slot and
  neither flag of the context changes.
\<close>

theorem feed_resets_deadline:
  assumes "initialized ctx"
    and "0 \<le> channel_id" and "channel_id < int WATCHDOG_MAX_CHANNELS"
    and "active (channels ctx (nat channel_id))"
  shows "fst (z_wdt_feed now ctx channel_id) = 0
       \<and> channels (snd (z_wdt_feed now ctx channel_id)) =
           (channels ctx)(nat channel_id := (channels ctx (nat channel_id))
              \<lparr>timeout_abs_ticks :=
                 now + watchdog_ms_to_ticks (reload_period (channels ctx (nat channel_id)))\<rparr>)
       \<and> initialized (snd (z_wdt_feed now ctx channel_id)) = initialized ctx
       \<and> timer_running (snd (z_wdt_feed now ctx channel_id)) = timer_running ctx"
  using assms by (simp add: z_wdt_feed_def Let_def)

text \<open>
  Channel 0 of \<open>ctx_one\<close> was last fed at tick 0 and has the deadline 1500. Fed at tick
  1200, with 300 ticks left, it gets the deadline 2700; fed at tick 100 it gets 1600.
\<close>

theorem feed_resets_deadline_witness:
  "initialized ctx_one \<and> active (channels ctx_one 0)
   \<and> timeout_abs_ticks (channels ctx_one 0) = 1500
   \<and> fst (z_wdt_feed 1200 ctx_one 0) = 0
   \<and> timeout_abs_ticks (channels (snd (z_wdt_feed 1200 ctx_one 0)) 0) = 2700
   \<and> timeout_abs_ticks (channels (snd (z_wdt_feed 100 ctx_one 0)) 0) = 1600"
proof -
  have h: "initialized ctx_one" "(0::int) \<le> 0" "(0::int) < int WATCHDOG_MAX_CHANNELS"
    "active (channels ctx_one (nat 0))"
    by (simp_all add: ctx_one_simps int_max_channels)
  show ?thesis
    using feed_resets_deadline [OF h, of 1200] feed_resets_deadline [OF h, of 100]
    by (simp add: ctx_one_simps watchdog_ms_to_ticks_def)
qed

section \<open>Adding a channel\<close>

lemma add_scan_all_active:
  "(\<forall>i \<in> set ids. active (channels ctx i)) \<Longrightarrow> add_scan now period cb ud ids ctx = (- 1, ctx)"
  by (induction ids) simp_all

lemma feed_fresh_slot:
  assumes "initialized ctx" and "k < WATCHDOG_MAX_CHANNELS"
  shows "z_wdt_feed now
           (ctx\<lparr>channels := (channels ctx)
              (k := (channels ctx k)\<lparr>reload_period := period, user_data := ud,
                      timeout_abs_ticks := INT64_MAX, callback := cb, active := True\<rparr>)\<rparr>)
           (int k)
         = (0, watchdog_schedule_next_timeout
                 (ctx\<lparr>channels := (channels ctx)
                    (k := \<lparr>reload_period = period,
                           timeout_abs_ticks = now + watchdog_ms_to_ticks period,
                           user_data = ud, callback = cb, active = True\<rparr>)\<rparr>))"
  using assms by (cases "channels ctx k") (simp add: z_wdt_feed_def Let_def)

lemma add_scan_first_inactive:
  assumes "initialized ctx" and "k < WATCHDOG_MAX_CHANNELS"
    and "\<forall>j \<in> set pre. active (channels ctx j)" and "\<not> active (channels ctx k)"
  shows "add_scan now period cb ud (pre @ k # post) ctx
         = (int k, watchdog_schedule_next_timeout
                 (ctx\<lparr>channels := (channels ctx)
                    (k := \<lparr>reload_period = period,
                           timeout_abs_ticks = now + watchdog_ms_to_ticks period,
                           user_data = ud, callback = cb, active = True\<rparr>)\<rparr>))"
  using assms
proof (induction pre)
  case Nil
  have "add_scan now period cb ud (k # post) ctx
        = (int k, snd (z_wdt_feed now
           (ctx\<lparr>channels := (channels ctx)
              (k := (channels ctx k)\<lparr>reload_period := period, user_data := ud,
                      timeout_abs_ticks := INT64_MAX, callback := cb, active := True\<rparr>)\<rparr>)
           (int k)))"
    using Nil.prems(4) by (simp add: Let_def)
  then show ?case
    by (simp only: feed_fresh_slot [OF Nil.prems(1,2)] snd_conv append_Nil)
next
  case (Cons a pre)
  then show ?case by simp
qed

lemma lowest_inactive:
  assumes "\<exists>i<n. \<not> active (channels ctx i)"
  shows "\<exists>k<n. \<not> active (channels ctx k) \<and> (\<forall>j<k. active (channels ctx j))"
proof -
  define k where "k = (LEAST i. \<not> active (channels ctx i))"
  from assms obtain i where i: "i < n" "\<not> active (channels ctx i)" by blast
  have "\<not> active (channels ctx k)" unfolding k_def using i(2) by (rule LeastI)
  moreover have "k \<le> i" unfolding k_def using i(2) by (rule Least_le)
  moreover have "\<forall>j<k. active (channels ctx j)"
    unfolding k_def using not_less_Least by blast
  ultimately show ?thesis using i(1) by (intro exI [of _ k]) auto
qed

lemma add_lowest_inactive:
  assumes "initialized ctx" and "period \<noteq> 0" and "k < WATCHDOG_MAX_CHANNELS"
    and "\<not> active (channels ctx k)" and "\<forall>j<k. active (channels ctx j)"
  shows "z_wdt_add now ctx period cb ud
         = (int k, watchdog_schedule_next_timeout
                 (ctx\<lparr>channels := (channels ctx)
                    (k := \<lparr>reload_period = period,
                           timeout_abs_ticks = now + watchdog_ms_to_ticks period,
                           user_data = ud, callback = cb, active = True\<rparr>)\<rparr>))"
proof -
  have "add_scan now period cb ud ([0..<k] @ k # [Suc k..<WATCHDOG_MAX_CHANNELS]) ctx
         = (int k, watchdog_schedule_next_timeout
                 (ctx\<lparr>channels := (channels ctx)
                    (k := \<lparr>reload_period = period,
                           timeout_abs_ticks = now + watchdog_ms_to_ticks period,
                           user_data = ud, callback = cb, active = True\<rparr>)\<rparr>))"
    using assms(1,3,4,5) by (intro add_scan_first_inactive) simp_all
  then show ?thesis
    using assms(1,2) channel_ids_split [OF assms(3)] by (simp add: z_wdt_add_def)
qed

text \<open>
  Claim C4. On an initialized context, with a period other than 0 and some inactive
  slot among the \<open>WATCHDOG_MAX_CHANNELS\<close>, \<^verbatim>\<open>z_wdt_add\<close> takes the inactive slot
  \<open>k\<close> of lowest index (every slot below it is active), returns \<open>k\<close>, which lies in
  \<open>[0, WATCHDOG_MAX_CHANNELS)\<close>, and leaves slot \<open>k\<close> holding exactly the given period,
  callback and user data, the deadline \<open>now + period\<close> and the active flag; the other
  slots are as before.
\<close>

theorem add_selects_lowest_free_slot:
  assumes "initialized ctx" and "period \<noteq> 0"
    and "\<exists>i<WATCHDOG_MAX_CHANNELS. \<not> active (channels ctx i)"
  shows "\<exists>k<WATCHDOG_MAX_CHANNELS.
           \<not> active (channels ctx k) \<and> (\<forall>j<k. active (channels ctx j))
         \<and> fst (z_wdt_add now ctx period cb ud) = int k
         \<and> channels (snd (z_wdt_add now ctx period cb ud))
           = (channels ctx)
               (k := \<lparr>reload_period = period,
                      timeout_abs_ticks = now + watchdog_ms_to_ticks period,
                      user_data = ud, callback = cb, active = True\<rparr>)"
proof -
  from lowest_inactive [OF assms(3)] obtain k where
    k: "k < WATCHDOG_MAX_CHANNELS" "\<not> active (channels ctx k)" "\<forall>j<k. active (channels ctx j)"
    by blast
  from add_lowest_inactive [OF assms(1,2) k, of now cb ud] k show ?thesis
    by (intro exI [of _ k]) simp
qed


text \<open>
  In \<open>ctx_one\<close> slot 0 is active and slot 1 is the first free one: an add at tick 40
  with period 1000 returns 1, fills slot 1 with the deadline 1040 and leaves slot 0 alone.
\<close>

theorem add_selects_lowest_free_slot_witness:
  "initialized ctx_one \<and> (1000 :: 32 word) \<noteq> 0 \<and> active (channels ctx_one 0)
   \<and> \<not> active (channels ctx_one 1)
   \<and> fst (z_wdt_add 40 ctx_one 1000 8 0) = 1
   \<and> channels (snd (z_wdt_add 40 ctx_one 1000 8 0)) 1
     = \<lparr>reload_period = 1000, timeout_abs_ticks = 1040, user_data = 0, callback = 8,
        active = True\<rparr>
   \<and> channels (snd (z_wdt_add 40 ctx_one 1000 8 0)) 0 = channels ctx_one 0"
proof -
  have h: "initialized ctx_one" "(1000 :: 32 word) \<noteq> 0"
    "\<exists>i<WATCHDOG_MAX_CHANNELS. \<not> active (channels ctx_one i)"
    by (simp_all add: ctx_one_simps, intro exI [of _ 1])
       (simp add: zero_channel_def WATCHDOG_MAX_CHANNELS_def)
  from add_selects_lowest_free_slot [OF h, of 40 8 0] obtain k where
    k: "\<not> active (channels ctx_one k)" "\<forall>j<k. active (channels ctx_one j)"
       "fst (z_wdt_add 40 ctx_one 1000 8 0) = int k"
       "channels (snd (z_wdt_add 40 ctx_one 1000 8 0))
           = (channels ctx_one)
               (k := \<lparr>reload_period = 1000,
                      timeout_abs_ticks = 40 + watchdog_ms_to_ticks 1000,
                      user_data = 0, callback = 8, active = True\<rparr>)"
    by blast
  have "k \<noteq> 0"
  proof
    assume "k = 0"
    with k(1) show False by (simp add: ctx_one_simps)
  qed
  moreover have "\<not> 1 < k"
  proof
    assume "1 < k"
    with k(2) have "active (channels ctx_one 1)" by blast
    then show False by (simp add: ctx_one_simps zero_channel_def)
  qed
  ultimately have "k = 1" by simp
  with k(3,4) show ?thesis
    by (simp add: ctx_one_simps zero_channel_def watchdog_ms_to_ticks_def)
qed


section \<open>The sweep loop\<close>

text \<open>
  The lemmas of this section follow one slot \<open>k\<close> through the loop of
  \<^verbatim>\<open>z_wdt_process\<close>. Their first hypothesis says that the callbacks called for the
  other channels leave slot \<open>k\<close> as it is: they neither feed, delete nor re-add it.
\<close>

lemma calls_for_append [simp]:
  "calls_for k (xs @ ys) = calls_for k xs @ calls_for k ys"
  by (simp add: calls_for_def)

lemma calls_for_Nil [simp]: "calls_for k [] = []"
  by (simp add: calls_for_def)

lemma calls_for_single [simp]:
  "calls_for k [(f, j, u)] = (if j = int k then [(f, j, u)] else [])"
  by (simp add: calls_for_def)

lemma process_scan_untouched:
  assumes frame: "\<And>f j u c. j \<noteq> int k \<Longrightarrow> channels (cbs f j u c) k = channels c k"
    and "\<not> (active (channels ctx k) \<and> sint (timeout_abs_ticks (channels ctx k)) \<le> sint now)"
    and "process_scan cbs now ids ctx calls = Inr (ctx', calls')"
  shows "channels ctx' k = channels ctx k \<and> calls_for k calls' = calls_for k calls"
  using assms(2,3)
proof (induction ids arbitrary: ctx calls)
  case Nil
  then show ?case by simp
next
  case (Cons i ids)
  show ?case
  proof (cases "i = k")
    case True
    with Cons.prems have "process_scan cbs now ids ctx calls = Inr (ctx', calls')"
      by auto
    with Cons.IH Cons.prems(1) show ?thesis by blast
  next
    case False
    show ?thesis
    proof (cases "active (channels ctx i)
                  \<and> sint (timeout_abs_ticks (channels ctx i)) \<le> sint now")
      case skip: False
      with Cons.prems have "process_scan cbs now ids ctx calls = Inr (ctx', calls')"
        by auto
      with Cons.IH Cons.prems(1) show ?thesis by blast
    next
      case fire: True
      define ctx1 where
        "ctx1 = cbs (callback (channels ctx i)) (int i) (user_data (channels ctx i)) ctx"
      define ctx2 where
        "ctx2 = ctx1\<lparr>channels := (channels ctx1)(i := (channels ctx1 i)\<lparr>active := False\<rparr>)\<rparr>"
      define calls2 where
        "calls2 = calls @ [(callback (channels ctx i), int i, user_data (channels ctx i))]"
      from fire Cons.prems(2) have cb: "callback (channels ctx i) \<noteq> NULL"
        by (auto split: if_splits)
      with fire Cons.prems(2) have run: "process_scan cbs now ids ctx2 calls2 = Inr (ctx', calls')"
        by (simp add: ctx1_def ctx2_def calls2_def Let_def)
      have same: "channels ctx2 k = channels ctx k"
        using False frame [of "int i"] by (simp add: ctx2_def ctx1_def)
      with Cons.prems(1) have
        "\<not> (active (channels ctx2 k) \<and> sint (timeout_abs_ticks (channels ctx2 k)) \<le> sint now)"
        by simp
      from Cons.IH [OF this run] same False show ?thesis
        by (simp add: calls2_def)
    qed
  qed
qed

lemma process_scan_fires:
  assumes frame: "\<And>f j u c. j \<noteq> int k \<Longrightarrow> channels (cbs f j u c) k = channels c k"
    and "k \<in> set ids" and "distinct ids"
    and "active (channels ctx k)"
    and "sint (timeout_abs_ticks (channels ctx k)) \<le> sint now"
    and "callback (channels ctx k) \<noteq> NULL"
    and "process_scan cbs now ids ctx calls = Inr (ctx', calls')"
  shows "\<not> active (channels ctx' k)
       \<and> calls_for k calls'
         = calls_for k calls @ [(callback (channels ctx k), int k, user_data (channels ctx k))]"
  using assms(2-)
proof (induction ids arbitrary: ctx calls)
  case Nil
  then show ?case by simp
next
  case (Cons i ids)
  show ?case
  proof (cases "i = k")
    case True
    define ctx1 where
      "ctx1 = cbs (callback (channels ctx k)) (int k) (user_data (channels ctx k)) ctx"
    define ctx2 where
      "ctx2 = ctx1\<lparr>channels := (channels ctx1)(k := (channels ctx1 k)\<lparr>active := False\<rparr>)\<rparr>"
    define calls2 where
      "calls2 = calls @ [(callback (channels ctx k), int k, user_data (channels ctx k))]"
    from True Cons.prems have run: "process_scan cbs now ids ctx2 calls2 = Inr (ctx', calls')"
      by (simp add: ctx1_def ctx2_def calls2_def Let_def)
    have off: "\<not> active (channels ctx2 k)" by (simp add: ctx2_def)
    then have "\<not> (active (channels ctx2 k)
                   \<and> sint (timeout_abs_ticks (channels ctx2 k)) \<le> sint now)"
      by simp
    from process_scan_untouched [OF frame this run] off show ?thesis
      by (simp add: calls2_def)
  next
    case False
    with Cons.prems have k_in: "k \<in> set ids" and dist: "distinct ids" by auto
    show ?thesis
    proof (cases "active (channels ctx i)
                  \<and> sint (timeout_abs_ticks (channels ctx i)) \<le> sint now")
      case skip: False
      with Cons.prems have "process_scan cbs now ids ctx calls = Inr (ctx', calls')"
        by auto
      from Cons.IH [OF k_in dist Cons.prems(3,4,5) this] show ?thesis .
    next
      case fire: True
      define ctx1 where
        "ctx1 = cbs (callback (channels ctx i)) (int i) (user_data (channels ctx i)) ctx"
      define ctx2 where
        "ctx2 = ctx1\<lparr>channels := (channels ctx1)(i := (channels ctx1 i)\<lparr>active := False\<rparr>)\<rparr>"
      define calls2 where
        "calls2 = calls @ [(callback (channels ctx i), int i, user_data (channels ctx i))]"
      from fire Cons.prems(6) have cb: "callback (channels ctx i) \<noteq> NULL"
        by (auto split: if_splits)
      with fire Cons.prems(6) have run: "process_scan cbs now ids ctx2 calls2 = Inr (ctx', calls')"
        by (simp add: ctx1_def ctx2_def calls2_def Let_def)
      have same: "channels ctx2 k = channels ctx k"
        using False frame [of "int i"] by (simp add: ctx2_def ctx1_def)
      from Cons.IH [OF k_in dist _ _ _ run] Cons.prems(3,4,5) same False show ?thesis
        by (simp add: calls2_def)
    qed
  qed
qed

lemma process_scan_fatal:
  assumes frame: "\<And>f j u c. j \<noteq> int k \<Longrightarrow> channels (cbs f j u c) k = channels c k"
    and "k \<in> set ids"
    and "active (channels ctx k)"
    and "sint (timeout_abs_ticks (channels ctx k)) \<le> sint now"
    and "callback (channels ctx k) = NULL"
  shows "process_scan cbs now ids ctx calls = Inl (Exit 1)"
  using assms(2-)
proof (induction ids arbitrary: ctx calls)
  case Nil
  then show ?case by simp
next
  case (Cons i ids)
  show ?case
  proof (cases "i = k")
    case True
    with Cons.prems show ?thesis by simp
  next
    case False
    with Cons.prems have k_in: "k \<in> set ids" by simp
    have same: "channels (cbs f (int i) u ctx) k = channels ctx k" for f u
      using False frame [of "int i"] by simp
    show ?thesis
      using False Cons.IH [OF k_in] Cons.prems(2,3,4) same
      by (simp add: Let_def)
  qed
qed


lemma mem_channel_ids: "k < WATCHDOG_MAX_CHANNELS \<Longrightarrow> k \<in> set [0..<WATCHDOG_MAX_CHANNELS]"
  by simp

lemma process_returns:
  assumes "initialized ctx" and "timer_running ctx"
    and "z_wdt_process cbs now ctx = Inr (ctx', calls)"
  shows "\<exists>ctx1. process_scan cbs now [0..<WATCHDOG_MAX_CHANNELS] ctx [] = Inr (ctx1, calls)
               \<and> channels ctx' = channels ctx1"
  using assms by (auto simp: z_wdt_process_def split: sum.splits)

section \<open>One-shot expiry\<close>





section \<open>Expiry without a callback\<close>



section \<open>Expiry and the channel's own callback\<close>

lemma feed_other_slot:
  "j \<noteq> int k \<Longrightarrow> channels (snd (z_wdt_feed t c j)) k = channels c k"
  by (auto simp: z_wdt_feed_def Let_def)

lemma process_scan_append:
  "process_scan cbs now (pre @ rest) ctx calls
   = (case process_scan cbs now pre ctx calls of
        Inl e \<Rightarrow> Inl e
      | Inr (c, calls0) \<Rightarrow> process_scan cbs now rest c calls0)"
  by (induction pre arbitrary: ctx calls) (simp_all add: Let_def)

lemma process_scan_prefix:
  assumes frame: "\<And>f j u c. j \<noteq> int k \<Longrightarrow> channels (cbs f j u c) k = channels c k"
    and "k \<notin> set pre"
    and "process_scan cbs now pre ctx calls = Inr (c, calls0)"
  shows "channels c k = channels ctx k"
  using assms(2,3)
proof (induction pre arbitrary: ctx calls)
  case Nil
  then show ?case by simp
next
  case (Cons i pre)
  then have ne: "i \<noteq> k" and notin: "k \<notin> set pre" by auto
  show ?case
  proof (cases "active (channels ctx i)
                \<and> sint (timeout_abs_ticks (channels ctx i)) \<le> sint now")
    case False
    with Cons.prems(2) have "process_scan cbs now pre ctx calls = Inr (c, calls0)" by auto
    from Cons.IH [OF notin this] show ?thesis .
  next
    case True
    define ctx1 where
      "ctx1 = cbs (callback (channels ctx i)) (int i) (user_data (channels ctx i)) ctx"
    define ctx2 where
      "ctx2 = ctx1\<lparr>channels := (channels ctx1)(i := (channels ctx1 i)\<lparr>active := False\<rparr>)\<rparr>"
    define calls2 where
      "calls2 = calls @ [(callback (channels ctx i), int i, user_data (channels ctx i))]"
    from True Cons.prems(2) have "callback (channels ctx i) \<noteq> NULL"
      by (auto split: if_splits)
    with True Cons.prems(2) have run: "process_scan cbs now pre ctx2 calls2 = Inr (c, calls0)"
      by (simp add: ctx1_def ctx2_def calls2_def Let_def)
    have "channels ctx2 k = channels ctx k"
      using ne frame [of "int i"] by (simp add: ctx2_def ctx1_def)
    with Cons.IH [OF notin run] show ?thesis by simp
  qed
qed

lemma process_scan_prefix_initialized:
  assumes keep: "\<And>f j u c. j \<noteq> int k \<Longrightarrow> initialized c \<Longrightarrow> initialized (cbs f j u c)"
    and "k \<notin> set pre" and "initialized ctx"
    and "process_scan cbs now pre ctx calls = Inr (c, calls0)"
  shows "initialized c"
  using assms(2,3,4)
proof (induction pre arbitrary: ctx calls)
  case Nil
  then show ?case by simp
next
  case (Cons i pre)
  then have ne: "i \<noteq> k" and notin: "k \<notin> set pre" by auto
  show ?case
  proof (cases "active (channels ctx i)
                \<and> sint (timeout_abs_ticks (channels ctx i)) \<le> sint now")
    case False
    with Cons.prems(3) have "process_scan cbs now pre ctx calls = Inr (c, calls0)" by auto
    from Cons.IH [OF notin Cons.prems(2) this] show ?thesis .
  next
    case True
    define ctx1 where
      "ctx1 = cbs (callback (channels ctx i)) (int i) (user_data (channels ctx i)) ctx"
    define ctx2 where
      "ctx2 = ctx1\<lparr>channels := (channels ctx1)(i := (channels ctx1 i)\<lparr>active := False\<rparr>)\<rparr>"
    define calls2 where
      "calls2 = calls @ [(callback (channels ctx i), int i, user_data (channels ctx i))]"
    from True Cons.prems(3) have "callback (channels ctx i) \<noteq> NULL"
      by (auto split: if_splits)
    with True Cons.prems(3) have run: "process_scan cbs now pre ctx2 calls2 = Inr (c, calls0)"
      by (simp add: ctx1_def ctx2_def calls2_def Let_def)
    have "initialized ctx2"
      using ne keep [of "int i"] Cons.prems(2) by (simp add: ctx2_def ctx1_def)
    from Cons.IH [OF notin this run] show ?thesis .
  qed
qed

lemma feed_initialized:
  "initialized (snd (z_wdt_feed t c j)) = initialized c"
  by (simp add: z_wdt_feed_def Let_def)

text \<open>
  Claim C10, as amended. Let slot \<open>k\<close> be active with a callback and its deadline at
  or before \<open>now\<close>, on an initialized context with monitoring enabled, and let the
  callbacks of the other channels leave slot \<open>k\<close> alone. Nothing is assumed about the
  callback of \<open>k\<close> itself. Then after a sweep that returns, slot \<open>k\<close> is inactive.
  More precisely, the sweep reaches slot \<open>k\<close> in a context \<open>c\<close>, the one the loop over
  the slots below \<open>k\<close> returns, in which slot \<open>k\<close> is as it was at entry; the rest of
  the sweep is the callback of \<open>k\<close> run in \<open>c\<close>, then the deactivation of slot \<open>k\<close>
  in whatever context the callback left, then the loop over the slots above \<open>k\<close>.
  If moreover the callbacks of the other channels keep the context initialized, \<open>c\<close> is
  initialized, and a \<^verbatim>\<open>z_wdt_feed(k)\<close> made in \<open>c\<close>, the context the callback of
  \<open>k\<close> is called in, returns 0.
\<close>

theorem expiry_survives_own_callback:
  assumes frame: "\<And>f j u c. j \<noteq> int k \<Longrightarrow> channels (cbs f j u c) k = channels c k"
    and "k < WATCHDOG_MAX_CHANNELS" and "initialized ctx" and "timer_running ctx"
    and "active (channels ctx k)"
    and "sint (timeout_abs_ticks (channels ctx k)) \<le> sint now"
    and "callback (channels ctx k) \<noteq> NULL"
    and "z_wdt_process cbs now ctx = Inr (ctx', calls)"
  shows "\<not> active (channels ctx' k)
       \<and> (\<exists>c calls0.
            process_scan cbs now [0..<k] ctx [] = Inr (c, calls0)
          \<and> channels c k = channels ctx k
          \<and> process_scan cbs now [0..<WATCHDOG_MAX_CHANNELS] ctx []
            = process_scan cbs now [Suc k..<WATCHDOG_MAX_CHANNELS]
                ((cbs (callback (channels ctx k)) (int k) (user_data (channels ctx k)) c)
                   \<lparr>channels :=
                      (channels (cbs (callback (channels ctx k)) (int k)
                                   (user_data (channels ctx k)) c))
                      (k := (channels (cbs (callback (channels ctx k)) (int k)
                                        (user_data (channels ctx k)) c) k)
                              \<lparr>active := False\<rparr>)\<rparr>)
                (calls0 @ [(callback (channels ctx k), int k, user_data (channels ctx k))])
          \<and> ((\<forall>f j u c'. j \<noteq> int k \<and> initialized c' \<longrightarrow> initialized (cbs f j u c'))
              \<longrightarrow> initialized c \<and> fst (z_wdt_feed t c (int k)) = 0))"
proof -
  from process_returns [OF assms(3,4,8)] obtain ctx1 where
    scan: "process_scan cbs now [0..<WATCHDOG_MAX_CHANNELS] ctx [] = Inr (ctx1, calls)"
    and same: "channels ctx' = channels ctx1"
    by blast
  from process_scan_fires [where cbs = cbs and k = k,
      OF frame mem_channel_ids [OF assms(2)] _ assms(5,6,7) scan] same
  have off: "\<not> active (channels ctx' k)" by simp
  have split: "[0..<WATCHDOG_MAX_CHANNELS] = [0..<k] @ k # [Suc k..<WATCHDOG_MAX_CHANNELS]"
    by (rule channel_ids_split [OF assms(2)])
  have whole: "process_scan cbs now [0..<WATCHDOG_MAX_CHANNELS] ctx []
        = (case process_scan cbs now [0..<k] ctx [] of
             Inl e \<Rightarrow> Inl e
           | Inr (c, calls0) \<Rightarrow>
               process_scan cbs now (k # [Suc k..<WATCHDOG_MAX_CHANNELS]) c calls0)"
    by (subst split) (rule process_scan_append)
  with scan obtain c calls0 where
    pre: "process_scan cbs now [0..<k] ctx [] = Inr (c, calls0)"
    by (cases "process_scan cbs now [0..<k] ctx []") auto
  have notin: "k \<notin> set [0..<k]" by simp
  have slot: "channels c k = channels ctx k"
    by (rule process_scan_prefix [where cbs = cbs and k = k, OF frame notin pre])
  have step: "process_scan cbs now [0..<WATCHDOG_MAX_CHANNELS] ctx []
            = process_scan cbs now [Suc k..<WATCHDOG_MAX_CHANNELS]
                ((cbs (callback (channels ctx k)) (int k) (user_data (channels ctx k)) c)
                   \<lparr>channels :=
                      (channels (cbs (callback (channels ctx k)) (int k)
                                   (user_data (channels ctx k)) c))
                      (k := (channels (cbs (callback (channels ctx k)) (int k)
                                        (user_data (channels ctx k)) c) k)
                              \<lparr>active := False\<rparr>)\<rparr>)
                (calls0 @ [(callback (channels ctx k), int k, user_data (channels ctx k))])"
    unfolding whole pre using assms(5,6,7) by (simp add: slot Let_def)
  have feed: "initialized c \<and> fst (z_wdt_feed t c (int k)) = 0"
    if keep: "\<forall>f j u c'. j \<noteq> int k \<and> initialized c' \<longrightarrow> initialized (cbs f j u c')"
  proof -
    from keep have k': "\<And>f j u c'. j \<noteq> int k \<Longrightarrow> initialized c' \<Longrightarrow> initialized (cbs f j u c')"
      by blast
    have i: "initialized c"
      by (rule process_scan_prefix_initialized
            [where cbs = cbs and k = k, OF k' notin assms(3) pre])
    then show ?thesis
      using assms(2,5) by (simp add: z_wdt_feed_def Let_def slot)
  qed
  from off pre slot step feed show ?thesis by blast
qed

text \<open>
  With callbacks that feed their own channel at tick 2000, the sweep of \<open>ctx_two\<close> at
  tick 2000 reaches slot 1 after the callback of channel 0 has run. In that context a
  feed of channel 1 returns 0; the callback of channel 1 makes it and moves the deadline
  to 3000, and slot 1 is inactive when the sweep returns.
\<close>

theorem expiry_survives_own_callback_witness:
  "active (channels ctx_two 1)
   \<and> sint (timeout_abs_ticks (channels ctx_two 1)) \<le> sint (2000 :: 64 word)
   \<and> \<not> isl (process_scan refeed_callbacks 2000 [0..<1] ctx_two [])
   \<and> initialized (fst (projr (process_scan refeed_callbacks 2000 [0..<1] ctx_two [])))
   \<and> fst (z_wdt_feed 2000
            (fst (projr (process_scan refeed_callbacks 2000 [0..<1] ctx_two []))) 1) = 0
   \<and> \<not> isl (z_wdt_process refeed_callbacks 2000 ctx_two)
   \<and> snd (projr (z_wdt_process refeed_callbacks 2000 ctx_two)) = [(7, 0, 9), (8, 1, 0)]
   \<and> timeout_abs_ticks (channels (fst (projr (z_wdt_process refeed_callbacks 2000 ctx_two))) 1)
     = 3000
   \<and> \<not> active (channels (fst (projr (z_wdt_process refeed_callbacks 2000 ctx_two))) 1)"
proof -
  have frame: "\<And>f j u c. j \<noteq> int 1 \<Longrightarrow> channels (refeed_callbacks f j u c) 1 = channels c 1"
    by (simp add: refeed_callbacks_def feed_other_slot)
  have keep: "\<forall>f j u c'. j \<noteq> int 1 \<and> initialized c'
                \<longrightarrow> initialized (refeed_callbacks f j u c')"
    by (simp add: refeed_callbacks_def feed_initialized)
  have h: "1 < WATCHDOG_MAX_CHANNELS" "initialized ctx_two" "timer_running ctx_two"
    "active (channels ctx_two 1)"
    "sint (timeout_abs_ticks (channels ctx_two 1)) \<le> sint (2000 :: 64 word)"
    "callback (channels ctx_two 1) \<noteq> NULL"
    by (simp_all add: ctx_two_simps WATCHDOG_MAX_CHANNELS_def NULL_def)
  define c2 where "c2 = fst (projr (z_wdt_process refeed_callbacks 2000 ctx_two))"
  have e: "z_wdt_process refeed_callbacks 2000 ctx_two = Inr (c2, [(7, 0, 9), (8, 1, 0)])"
    unfolding c2_def
    by (simp add: z_wdt_process_def channel_ids ctx_two_simps zero_channel_def
          refeed_callbacks_def NULL_def z_wdt_feed_def Let_def int_max_channels)
  have d: "timeout_abs_ticks (channels c2 1) = 3000"
    unfolding c2_def
    by (simp add: z_wdt_process_def channel_ids ctx_two_simps zero_channel_def
          refeed_callbacks_def NULL_def z_wdt_feed_def Let_def int_max_channels
          watchdog_ms_to_ticks_def)
  define c0 where "c0 = fst (projr (process_scan refeed_callbacks 2000 [0..<1] ctx_two []))"
  have e0: "process_scan refeed_callbacks 2000 [0..<1] ctx_two [] = Inr (c0, [(7, 0, 9)])"
    unfolding c0_def
    by (simp add: ctx_two_simps zero_channel_def refeed_callbacks_def NULL_def
          z_wdt_feed_def Let_def int_max_channels)
  note t = expiry_survives_own_callback
    [where cbs = refeed_callbacks and k = 1 and t = 2000, OF frame h e]
  from t [THEN conjunct2] obtain c calls0 where
    p: "process_scan refeed_callbacks 2000 [0..<1] ctx_two [] = Inr (c, calls0)"
    and f: "(\<forall>f j u c'. j \<noteq> int 1 \<and> initialized c'
                \<longrightarrow> initialized (refeed_callbacks f j u c'))
            \<longrightarrow> initialized c \<and> fst (z_wdt_feed 2000 c (int 1)) = 0"
    by blast
  from p e0 have "c = c0" by simp
  with f keep have a0: "initialized c0" "fst (z_wdt_feed 2000 c0 (int 1)) = 0"
    by blast+
  have a1: "\<not> active (channels c2 1)" by (rule t [THEN conjunct1])
  have r0: "\<not> isl (process_scan refeed_callbacks 2000 [0..<1] ctx_two [])"
    "fst (projr (process_scan refeed_callbacks 2000 [0..<1] ctx_two [])) = c0"
    unfolding e0 by simp_all
  have r2: "\<not> isl (z_wdt_process refeed_callbacks 2000 ctx_two)"
    "fst (projr (z_wdt_process refeed_callbacks 2000 ctx_two)) = c2"
    "snd (projr (z_wdt_process refeed_callbacks 2000 ctx_two)) = [(7, 0, 9), (8, 1, 0)]"
    unfolding e by simp_all
  from a0 have a0': "fst (z_wdt_feed 2000 c0 1) = 0" by simp
  show ?thesis
    unfolding r0(2) r2(2)
    using h(4,5) r0(1) a0(1) a0' r2(1,3) d a1 by blast
qed

text \<open>
  Claim C10 as stated, for every channel that is active and expired at entry, fails
  when the callback of another channel feeds it first. In \<open>ctx_two\<close> both channels
  are expired at tick 2000. The callback of channel 0 (address 7) feeds channel 1, whose
  deadline becomes 3000; the sweep then finds channel 1 not expired, makes no call for
  it and returns with channel 1 still active.
\<close>

theorem expiry_cancelled_by_other_callback:
  "initialized ctx_two \<and> timer_running ctx_two
   \<and> active (channels ctx_two 1)
   \<and> sint (timeout_abs_ticks (channels ctx_two 1)) \<le> sint (2000 :: 64 word)
   \<and> callback (channels ctx_two 1) \<noteq> NULL
   \<and> \<not> isl (z_wdt_process rescue_callbacks 2000 ctx_two)
   \<and> snd (projr (z_wdt_process rescue_callbacks 2000 ctx_two)) = [(7, 0, 9)]
   \<and> active (channels (fst (projr (z_wdt_process rescue_callbacks 2000 ctx_two))) 1)"
  by (simp add: z_wdt_process_def channel_ids ctx_two_simps zero_channel_def
        rescue_callbacks_def NULL_def z_wdt_feed_def Let_def int_max_channels
        watchdog_ms_to_ticks_def)


section \<open>Deactivation\<close>

text \<open>
  Claim C3 says that an inactive slot never carries stale data. It fails on both
  deactivation paths. \<open>ctx_one\<close> has no stale data. After the successful
  \<^verbatim>\<open>z_wdt_delete(0)\<close> slot 0 is inactive and still holds the deadline 1500. After
  the sweep at tick 1500 has expired channel 0, slot 0 is inactive and still holds
  period, deadline, user data and callback.
\<close>

theorem deactivation_keeps_stale_data:
  "no_stale_data ctx_one
   \<and> fst (z_wdt_delete ctx_one 0) = 0
   \<and> \<not> active (channels (snd (z_wdt_delete ctx_one 0)) 0)
   \<and> timeout_abs_ticks (channels (snd (z_wdt_delete ctx_one 0)) 0) = 1500
   \<and> \<not> no_stale_data (snd (z_wdt_delete ctx_one 0))
   \<and> \<not> isl (z_wdt_process quiet_callbacks 1500 ctx_one)
   \<and> channels (fst (projr (z_wdt_process quiet_callbacks 1500 ctx_one))) 0
     = \<lparr>reload_period = 1500, timeout_abs_ticks = 1500, user_data = 9, callback = 7,
        active = False\<rparr>
   \<and> \<not> no_stale_data (fst (projr (z_wdt_process quiet_callbacks 1500 ctx_one)))"
  by (simp add: no_stale_data_def slot_cleared_def channel_ids z_wdt_delete_def
        z_wdt_process_def ctx_one_simps zero_channel_def quiet_callbacks_def NULL_def
        INT64_MAX_def int_max_channels Let_def)

text \<open>
  Claim C3, as amended. Every deactivation clears the active flag of the slot, and a
  successful \<^verbatim>\<open>z_wdt_delete\<close> also resets its callback, user data and period.
  For the sweep: a slot that is active and expired when a sweep starts, and that the
  callbacks of other channels leave alone, is inactive when the sweep returns.
\<close>

theorem deactivation_clears_slot:
  "(fst (z_wdt_delete ctx channel_id) = 0 \<longrightarrow>
      \<not> active (channels (snd (z_wdt_delete ctx channel_id)) (nat channel_id))
      \<and> callback (channels (snd (z_wdt_delete ctx channel_id)) (nat channel_id)) = NULL
      \<and> user_data (channels (snd (z_wdt_delete ctx channel_id)) (nat channel_id)) = NULL
      \<and> reload_period (channels (snd (z_wdt_delete ctx channel_id)) (nat channel_id)) = 0)
   \<and> (initialized ctx \<and> timer_running ctx \<and> k < WATCHDOG_MAX_CHANNELS
      \<and> active (channels ctx k) \<and> sint (timeout_abs_ticks (channels ctx k)) \<le> sint now
      \<and> (\<forall>f j u c. j \<noteq> int k \<longrightarrow> channels (cbs f j u c) k = channels c k)
      \<and> z_wdt_process cbs now ctx = Inr (ctx', calls)
    \<longrightarrow> \<not> active (channels ctx' k))"
proof (intro conjI impI)
  assume "fst (z_wdt_delete ctx channel_id) = 0"
  then show "\<not> active (channels (snd (z_wdt_delete ctx channel_id)) (nat channel_id))"
    and "callback (channels (snd (z_wdt_delete ctx channel_id)) (nat channel_id)) = NULL"
    and "user_data (channels (snd (z_wdt_delete ctx channel_id)) (nat channel_id)) = NULL"
    and "reload_period (channels (snd (z_wdt_delete ctx channel_id)) (nat channel_id)) = 0"
    by (simp_all add: z_wdt_delete_def Let_def split: if_splits)
next
  assume a: "initialized ctx \<and> timer_running ctx \<and> k < WATCHDOG_MAX_CHANNELS
      \<and> active (channels ctx k) \<and> sint (timeout_abs_ticks (channels ctx k)) \<le> sint now
      \<and> (\<forall>f j u c. j \<noteq> int k \<longrightarrow> channels (cbs f j u c) k = channels c k)
      \<and> z_wdt_process cbs now ctx = Inr (ctx', calls)"
  then have frame: "\<And>f j u c. j \<noteq> int k \<Longrightarrow> channels (cbs f j u c) k = channels c k"
    by blast
  from a have k: "k \<in> set [0..<WATCHDOG_MAX_CHANNELS]" by simp
  from a process_returns [of ctx cbs now ctx' calls] obtain ctx1 where
    scan: "process_scan cbs now [0..<WATCHDOG_MAX_CHANNELS] ctx [] = Inr (ctx1, calls)"
    and same: "channels ctx' = channels ctx1"
    by blast
  have cb: "callback (channels ctx k) \<noteq> NULL"
  proof
    assume "callback (channels ctx k) = NULL"
    with process_scan_fatal [where cbs = cbs and k = k and ctx = ctx and now = now
        and calls = "[]", OF frame k] a scan
    show False by simp
  qed
  from process_scan_fires [where cbs = cbs and k = k, OF frame k _ _ _ cb scan] a same
  show "\<not> active (channels ctx' k)" by simp
qed

text \<open>
  Channel 0 of \<open>ctx_one\<close>, deleted, and expired by the sweep at tick 1500.
\<close>

theorem deactivation_clears_slot_witness:
  "fst (z_wdt_delete ctx_one 0) = 0
   \<and> \<not> active (channels (snd (z_wdt_delete ctx_one 0)) 0)
   \<and> callback (channels (snd (z_wdt_delete ctx_one 0)) 0) = NULL
   \<and> user_data (channels (snd (z_wdt_delete ctx_one 0)) 0) = NULL
   \<and> reload_period (channels (snd (z_wdt_delete ctx_one 0)) 0) = 0
   \<and> active (channels ctx_one 0)
   \<and> sint (timeout_abs_ticks (channels ctx_one 0)) \<le> sint (1500 :: 64 word)
   \<and> \<not> isl (z_wdt_process quiet_callbacks 1500 ctx_one)
   \<and> \<not> active (channels (fst (projr (z_wdt_process quiet_callbacks 1500 ctx_one))) 0)"
proof -
  define c2 where "c2 = fst (projr (z_wdt_process quiet_callbacks 1500 ctx_one))"
  have e: "z_wdt_process quiet_callbacks 1500 ctx_one = Inr (c2, [(7, 0, 9)])"
    unfolding c2_def
    by (simp add: z_wdt_process_def channel_ids ctx_one_simps zero_channel_def
          quiet_callbacks_def NULL_def)
  have d: "fst (z_wdt_delete ctx_one 0) = 0"
    by (simp add: z_wdt_delete_def ctx_one_simps int_max_channels Let_def)
  have h: "initialized ctx_one \<and> timer_running ctx_one \<and> 0 < WATCHDOG_MAX_CHANNELS
      \<and> active (channels ctx_one 0)
      \<and> sint (timeout_abs_ticks (channels ctx_one 0)) \<le> sint (1500 :: 64 word)
      \<and> (\<forall>f j u c. j \<noteq> int 0 \<longrightarrow> channels (quiet_callbacks f j u c) 0 = channels c 0)
      \<and> z_wdt_process quiet_callbacks 1500 ctx_one = Inr (c2, [(7, 0, 9)])"
    using e by (simp add: ctx_one_simps WATCHDOG_MAX_CHANNELS_def quiet_callbacks_def)
  note t = deactivation_clears_slot
    [where ctx = ctx_one and channel_id = 0 and k = 0 and now = 1500
       and cbs = quiet_callbacks and ctx' = c2 and calls = "[(7, 0, 9)]"]
  from t [THEN conjunct1, rule_format, OF d] t [THEN conjunct2, rule_format, OF h] d h
  show ?thesis
    by (simp add: e)
qed


section \<open>Suspend and resume\<close>

lemma resume_scan_channels:
  "channels (resume_scan now ids ctx) i =
     (if i \<in> set ids \<and> active (channels ctx i)
      then (channels ctx i)\<lparr>timeout_abs_ticks :=
             now + watchdog_ms_to_ticks (reload_period (channels ctx i))\<rparr>
      else channels ctx i)"
  by (induction ids arbitrary: ctx) auto

lemma resume_scan_flags:
  "initialized (resume_scan now ids ctx) = initialized ctx"
  by (induction ids arbitrary: ctx) auto

text \<open>
  Claim C6. On an initialized context \<^verbatim>\<open>z_wdt_suspend\<close> changes nothing but the
  monitoring flag \<open>timer_running\<close>, which it clears, and a sweep of the suspended
  context, at any tick \<open>t\<close> and with any callbacks, makes no call and returns the
  context as it is. \<^verbatim>\<open>z_wdt_resume\<close> at tick \<open>now\<close> gives every active slot of
  the table the deadline \<open>now + period\<close>, whatever its old deadline was, changes no
  other field of any slot, and leaves monitoring enabled. On an uninitialized context
  both return the context unchanged.
\<close>

theorem suspend_and_resume:
  "(initialized ctx \<longrightarrow>
      z_wdt_suspend ctx = ctx\<lparr>timer_running := False\<rparr>
      \<and> z_wdt_process cbs t (z_wdt_suspend ctx) = Inr (z_wdt_suspend ctx, [])
      \<and> (\<forall>i. channels (z_wdt_resume now ctx) i =
            (if i < WATCHDOG_MAX_CHANNELS \<and> active (channels ctx i)
             then (channels ctx i)\<lparr>timeout_abs_ticks :=
                    now + watchdog_ms_to_ticks (reload_period (channels ctx i))\<rparr>
             else channels ctx i))
      \<and> timer_running (z_wdt_resume now ctx)
      \<and> initialized (z_wdt_resume now ctx))
   \<and> (\<not> initialized ctx \<longrightarrow> z_wdt_suspend ctx = ctx \<and> z_wdt_resume now ctx = ctx)"
  by (simp add: z_wdt_suspend_def z_wdt_resume_def z_wdt_process_def Let_def
        resume_scan_channels resume_scan_flags)

text \<open>
  \<open>ctx_two\<close> (deadlines 1500 and 1000) suspended: the sweep at tick 9000 makes no
  call; the resume at tick 9000 sets the deadlines 10500 and 10000.
\<close>

theorem suspend_and_resume_witness:
  "initialized ctx_two
   \<and> channels (z_wdt_suspend ctx_two) = channels ctx_two
   \<and> \<not> timer_running (z_wdt_suspend ctx_two)
   \<and> z_wdt_process quiet_callbacks 9000 (z_wdt_suspend ctx_two) = Inr (z_wdt_suspend ctx_two, [])
   \<and> timeout_abs_ticks (channels (z_wdt_resume 9000 (z_wdt_suspend ctx_two)) 0) = 10500
   \<and> timeout_abs_ticks (channels (z_wdt_resume 9000 (z_wdt_suspend ctx_two)) 1) = 10000
   \<and> timer_running (z_wdt_resume 9000 (z_wdt_suspend ctx_two))
   \<and> \<not> initialized zero_context
   \<and> z_wdt_suspend zero_context = zero_context
   \<and> z_wdt_resume 9000 zero_context = zero_context"
proof -
  have i: "initialized ctx_two" "initialized (z_wdt_suspend ctx_two)"
    "\<not> initialized zero_context"
    by (simp_all add: ctx_two_simps z_wdt_suspend_def zero_context_def)
  note t1 = suspend_and_resume
      [where ctx = ctx_two and cbs = quiet_callbacks and t = 9000 and now = 9000,
      THEN conjunct1, rule_format, OF i(1)]
  note t2 = suspend_and_resume
      [where ctx = "z_wdt_suspend ctx_two" and now = 9000 and cbs = quiet_callbacks and t = 0,
      THEN conjunct1, rule_format, OF i(2)]
  note t3 = suspend_and_resume
      [where ctx = zero_context and now = 9000 and cbs = quiet_callbacks and t = 0,
      THEN conjunct2, rule_format, OF i(3)]
  have s: "z_wdt_suspend ctx_two = ctx_two\<lparr>timer_running := False\<rparr>"
    by (rule t1 [THEN conjunct1])
  have p: "z_wdt_process quiet_callbacks 9000 (z_wdt_suspend ctx_two)
           = Inr (z_wdt_suspend ctx_two, [])"
    by (rule t1 [THEN conjunct2, THEN conjunct1])
  have r0: "channels (z_wdt_resume 9000 (z_wdt_suspend ctx_two)) 0
            = (channels (z_wdt_suspend ctx_two) 0)\<lparr>timeout_abs_ticks :=
                9000 + watchdog_ms_to_ticks (reload_period (channels (z_wdt_suspend ctx_two) 0))\<rparr>"
    using t2 [THEN conjunct2, THEN conjunct2, THEN conjunct1, rule_format, of 0]
    by (simp add: s ctx_two_simps WATCHDOG_MAX_CHANNELS_def)
  have r1: "channels (z_wdt_resume 9000 (z_wdt_suspend ctx_two)) 1
            = (channels (z_wdt_suspend ctx_two) 1)\<lparr>timeout_abs_ticks :=
                9000 + watchdog_ms_to_ticks (reload_period (channels (z_wdt_suspend ctx_two) 1))\<rparr>"
    using t2 [THEN conjunct2, THEN conjunct2, THEN conjunct1, rule_format, of 1]
    by (simp add: s ctx_two_simps WATCHDOG_MAX_CHANNELS_def)
  have r2: "timer_running (z_wdt_resume 9000 (z_wdt_suspend ctx_two))"
    by (rule t2 [THEN conjunct2, THEN conjunct2, THEN conjunct2, THEN conjunct1])
  have d0: "timeout_abs_ticks (channels (z_wdt_resume 9000 (z_wdt_suspend ctx_two)) 0) = 10500"
    unfolding r0 by (simp add: s ctx_two_simps watchdog_ms_to_ticks_def)
  have d1: "timeout_abs_ticks (channels (z_wdt_resume 9000 (z_wdt_suspend ctx_two)) 1) = 10000"
    unfolding r1 by (simp add: s ctx_two_simps watchdog_ms_to_ticks_def)
  have c: "channels (z_wdt_suspend ctx_two) = channels ctx_two"
    "\<not> timer_running (z_wdt_suspend ctx_two)"
    by (simp_all add: s)
  from i(1,3) c p d0 d1 r2 t3 show ?thesis
    by blast
qed


section \<open>Error returns\<close>

lemma add_scan_error_iff:
  "fst (add_scan now period cb ud ids ctx) = - 1 \<longleftrightarrow> (\<forall>i \<in> set ids. active (channels ctx i))"
  by (induction ids) (simp_all add: Let_def)

lemma add_scan_range:
  assumes "fst (add_scan now period cb ud ids ctx) \<noteq> - 1"
  shows "\<exists>i \<in> set ids. fst (add_scan now period cb ud ids ctx) = int i"
  using assms by (induction ids) (simp_all add: Let_def split: if_splits)

lemma add_error_iff:
  "fst (z_wdt_add now ctx period cb ud) = - 1 \<longleftrightarrow>
     \<not> initialized ctx \<or> period = 0 \<or> (\<forall>i<WATCHDOG_MAX_CHANNELS. active (channels ctx i))"
  by (auto simp: z_wdt_add_def add_scan_error_iff)

lemma add_range:
  assumes "fst (z_wdt_add now ctx period cb ud) \<noteq> - 1"
  shows "0 \<le> fst (z_wdt_add now ctx period cb ud)
       \<and> fst (z_wdt_add now ctx period cb ud) < int WATCHDOG_MAX_CHANNELS"
proof -
  from assms have "fst (add_scan now period cb ud [0..<WATCHDOG_MAX_CHANNELS] ctx) \<noteq> - 1"
    and eq: "z_wdt_add now ctx period cb ud
             = add_scan now period cb ud [0..<WATCHDOG_MAX_CHANNELS] ctx"
    by (auto simp: z_wdt_add_def split: if_splits)
  from add_scan_range [OF this(1)] show ?thesis
    unfolding eq by auto
qed

lemma delete_error_iff:
  "fst (z_wdt_delete ctx channel_id) = - 1 \<longleftrightarrow>
     \<not> initialized ctx \<or> channel_id < 0 \<or> channel_id \<ge> int WATCHDOG_MAX_CHANNELS
     \<or> \<not> active (channels ctx (nat channel_id))"
  by (simp add: z_wdt_delete_def Let_def)

lemma delete_success: "fst (z_wdt_delete ctx channel_id) \<noteq> - 1 \<Longrightarrow> fst (z_wdt_delete ctx channel_id) = 0"
  by (simp add: z_wdt_delete_def Let_def split: if_splits)

lemma feed_error_iff:
  "fst (z_wdt_feed now ctx channel_id) = - 1 \<longleftrightarrow>
     \<not> initialized ctx \<or> channel_id < 0 \<or> channel_id \<ge> int WATCHDOG_MAX_CHANNELS
     \<or> \<not> active (channels ctx (nat channel_id))"
  by (simp add: z_wdt_feed_def Let_def)

lemma feed_success: "fst (z_wdt_feed now ctx channel_id) \<noteq> - 1 \<Longrightarrow> fst (z_wdt_feed now ctx channel_id) = 0"
  by (simp add: z_wdt_feed_def Let_def split: if_splits)

lemma add_after_delete:
  assumes "fst (z_wdt_delete ctx channel_id) = 0" and "period \<noteq> 0"
  shows "0 \<le> fst (z_wdt_add now (snd (z_wdt_delete ctx channel_id)) period cb ud)"
proof -
  from assms(1) have ok: "initialized ctx" "0 \<le> channel_id"
    "channel_id < int WATCHDOG_MAX_CHANNELS"
    by (simp_all add: z_wdt_delete_def Let_def split: if_splits)
  then have "initialized (snd (z_wdt_delete ctx channel_id))"
    and "\<not> active (channels (snd (z_wdt_delete ctx channel_id)) (nat channel_id))"
    by (simp_all add: z_wdt_delete_def Let_def)
  moreover from ok have "nat channel_id < WATCHDOG_MAX_CHANNELS" by simp
  ultimately have "fst (z_wdt_add now (snd (z_wdt_delete ctx channel_id)) period cb ud) \<noteq> - 1"
    using assms(2) unfolding add_error_iff by blast
  from add_range [OF this] show ?thesis by simp
qed

text \<open>
  Claim C5. Every error of the three operations is the return value -1.
  \<^verbatim>\<open>z_wdt_add\<close> returns -1 exactly when the context is not initialized, the period
  is 0 or all \<open>WATCHDOG_MAX_CHANNELS\<close> slots are active, and otherwise an id in
  \<open>[0, WATCHDOG_MAX_CHANNELS)\<close>. \<^verbatim>\<open>z_wdt_delete\<close> and \<^verbatim>\<open>z_wdt_feed\<close>
  return -1 exactly when the context is not initialized, the id is negative or at least
  \<open>WATCHDOG_MAX_CHANNELS\<close>, or the slot is inactive, and otherwise 0. So an add on a
  full table fails, and after any successful delete an add with a period other than 0
  succeeds.
\<close>

theorem error_returns:
  "(fst (z_wdt_add now ctx period cb ud) = - 1 \<longleftrightarrow>
      \<not> initialized ctx \<or> period = 0 \<or> (\<forall>i<WATCHDOG_MAX_CHANNELS. active (channels ctx i)))
   \<and> (fst (z_wdt_add now ctx period cb ud) \<noteq> - 1 \<longrightarrow>
        0 \<le> fst (z_wdt_add now ctx period cb ud)
        \<and> fst (z_wdt_add now ctx period cb ud) < int WATCHDOG_MAX_CHANNELS)
   \<and> (fst (z_wdt_delete ctx channel_id) = - 1 \<longleftrightarrow>
        \<not> initialized ctx \<or> channel_id < 0 \<or> channel_id \<ge> int WATCHDOG_MAX_CHANNELS
        \<or> \<not> active (channels ctx (nat channel_id)))
   \<and> (fst (z_wdt_delete ctx channel_id) \<noteq> - 1 \<longrightarrow> fst (z_wdt_delete ctx channel_id) = 0)
   \<and> (fst (z_wdt_feed now ctx channel_id) = - 1 \<longleftrightarrow>
        \<not> initialized ctx \<or> channel_id < 0 \<or> channel_id \<ge> int WATCHDOG_MAX_CHANNELS
        \<or> \<not> active (channels ctx (nat channel_id)))
   \<and> (fst (z_wdt_feed now ctx channel_id) \<noteq> - 1 \<longrightarrow> fst (z_wdt_feed now ctx channel_id) = 0)
   \<and> (fst (z_wdt_delete ctx channel_id) = 0 \<and> period' \<noteq> 0 \<longrightarrow>
        0 \<le> fst (z_wdt_add now' (snd (z_wdt_delete ctx channel_id)) period' cb' ud'))"
  using add_error_iff [of now ctx period cb ud] add_range [of now ctx period cb ud]
    delete_error_iff [of ctx channel_id] delete_success [of ctx channel_id]
    feed_error_iff [of now ctx channel_id] feed_success [of now ctx channel_id]
    add_after_delete [of ctx channel_id period' now' cb' ud']
  by blast

text \<open>The full table: each add takes the next slot.\<close>

lemma add_channels_fill:
  assumes "initialized ctx" and "\<forall>i<m. active (channels ctx i)"
    and "\<forall>i\<ge>m. \<not> active (channels ctx i)" and "m + n \<le> WATCHDOG_MAX_CHANNELS"
  shows "initialized (add_channels n ctx)
       \<and> (\<forall>i<m + n. active (channels (add_channels n ctx) i))"
  using assms
proof (induction n arbitrary: ctx m)
  case 0
  then show ?case by simp
next
  case (Suc n)
  have m: "m < WATCHDOG_MAX_CHANNELS" "\<not> active (channels ctx m)"
    using Suc.prems by simp_all
  have p: "(1000 :: 32 word) \<noteq> 0" by simp
  note a = add_lowest_inactive [OF Suc.prems(1) p m Suc.prems(2), of 0 7 0]
  define ctx1 where "ctx1 = snd (z_wdt_add 0 ctx 1000 7 0)"
  have c: "channels ctx1 = (channels ctx)
             (m := \<lparr>reload_period = 1000,
                    timeout_abs_ticks = 0 + watchdog_ms_to_ticks 1000,
                    user_data = 0, callback = 7, active = True\<rparr>)"
    and i: "initialized ctx1"
    using Suc.prems(1) by (simp_all add: ctx1_def a)
  have "initialized (add_channels n ctx1)
       \<and> (\<forall>i<Suc m + n. active (channels (add_channels n ctx1) i))"
  proof (rule Suc.IH [OF i])
    show "\<forall>i<Suc m. active (channels ctx1 i)"
      using Suc.prems(2) by (simp add: c less_Suc_eq)
    show "\<forall>i\<ge>Suc m. \<not> active (channels ctx1 i)"
      using Suc.prems(3) by (simp add: c)
    show "Suc m + n \<le> WATCHDOG_MAX_CHANNELS"
      using Suc.prems(4) by simp
  qed
  then show ?case by (simp add: ctx1_def)
qed

lemma ctx_full_simps:
  "initialized ctx_full" "\<forall>i<WATCHDOG_MAX_CHANNELS. active (channels ctx_full i)"
  using add_channels_fill [of ctx_init 0 WATCHDOG_MAX_CHANNELS]
  by (simp_all add: ctx_full_def ctx_init_simps zero_channel_def)

text \<open>
  On the full table the seventeenth add fails, delete and feed of channel 3 succeed,
  and after the delete of channel 3 one more add succeeds; ids 16 and -1, an
  uninitialized context and the period 0 are refused.
\<close>

theorem error_returns_witness:
  "initialized ctx_full \<and> (1000 :: 32 word) \<noteq> 0
   \<and> fst (z_wdt_add 5 ctx_full 1000 7 0) = - 1
   \<and> fst (z_wdt_delete ctx_full 3) = 0
   \<and> 0 \<le> fst (z_wdt_add 5 (snd (z_wdt_delete ctx_full 3)) 1000 7 0)
   \<and> fst (z_wdt_feed 5 ctx_full 3) = 0
   \<and> fst (z_wdt_feed 5 ctx_full 16) = - 1
   \<and> fst (z_wdt_delete ctx_full (- 1)) = - 1
   \<and> fst (z_wdt_feed 5 zero_context 0) = - 1
   \<and> fst (z_wdt_add 5 ctx_full 0 7 0) = - 1"
proof -
  note t = error_returns [where ctx = ctx_full and now = 5 and period = 1000 and cb = 7
      and ud = 0 and channel_id = 3 and period' = 1000 and now' = 5 and cb' = 7 and ud' = 0]
  note u = error_returns [where ctx = ctx_full and now = 5 and period = 0 and cb = 7
      and ud = 0 and channel_id = 16 and period' = 1000 and now' = 5 and cb' = 7 and ud' = 0]
  note v = error_returns [where ctx = ctx_full and now = 5 and period = 0 and cb = 7
      and ud = 0 and channel_id = "- 1" and period' = 1000 and now' = 5 and cb' = 7 and ud' = 0]
  note w = error_returns [where ctx = zero_context and now = 5 and period = 0 and cb = 7
      and ud = 0 and channel_id = 0 and period' = 1000 and now' = 5 and cb' = 7 and ud' = 0]
  have a3: "active (channels ctx_full (nat 3))"
    using ctx_full_simps(2) by (simp add: WATCHDOG_MAX_CHANNELS_def)
  have z: "\<not> initialized zero_context" by (simp add: zero_context_def)
  have f1: "fst (z_wdt_add 5 ctx_full 1000 7 0) = - 1"
    using t ctx_full_simps by blast
  have f2: "fst (z_wdt_delete ctx_full 3) = 0"
    using t ctx_full_simps(1) a3 by (simp add: int_max_channels)
  have f3: "0 \<le> fst (z_wdt_add 5 (snd (z_wdt_delete ctx_full 3)) 1000 7 0)"
    using t f2 by simp
  have f4: "fst (z_wdt_feed 5 ctx_full 3) = 0"
    using t ctx_full_simps(1) a3 by (simp add: int_max_channels)
  have f5: "fst (z_wdt_feed 5 ctx_full 16) = - 1"
    using u by (simp add: int_max_channels)
  have f6: "fst (z_wdt_delete ctx_full (- 1)) = - 1"
    using v by simp
  have f7: "fst (z_wdt_feed 5 zero_context 0) = - 1"
    using w z by simp
  have f8: "fst (z_wdt_add 5 ctx_full 0 7 0) = - 1"
    using u by simp
  from ctx_full_simps(1) f1 f2 f3 f4 f5 f6 f7 f8 show ?thesis by simp
qed


section \<open>Locking of the registry operations\<close>

text \<open>
  Claim C9 says that every access of add, delete and feed to the channel table is made
  with the shared lock held. \<^verbatim>\<open>z_wdt_delete\<close> and \<^verbatim>\<open>z_wdt_add\<close> do so, and the
  \<^verbatim>\<open>z_wdt_feed\<close> nested in \<^verbatim>\<open>z_wdt_add\<close> runs under the lock of
  \<^verbatim>\<open>z_wdt_add\<close>. A \<^verbatim>\<open>z_wdt_feed(0)\<close> called directly on \<open>ctx_one\<close>, as the
  test tasks call it, reads and writes the table without ever taking the lock.
\<close>

theorem feed_accesses_table_unlocked:
  "initialized ctx_one \<and> active (channels ctx_one 0)
   \<and> z_wdt_feed_events ctx_one 0 = [Table_read, Table_write, Table_read]
   \<and> \<not> lock_discipline False (z_wdt_feed_events ctx_one 0)
   \<and> lock_discipline False (z_wdt_delete_events ctx_one 0)
   \<and> lock_discipline False (z_wdt_add_events ctx_one 1000 8 0)"
  by (simp add: z_wdt_feed_events_def z_wdt_delete_events_def z_wdt_add_events_def
        channel_ids ctx_one_simps zero_channel_def int_max_channels)

section \<open>Error paths and the context\<close>

text \<open>The error returns of add, delete and feed leave the context as it was.\<close>

lemma add_scan_unchanged:
  "fst (add_scan now period cb ud ids ctx) = - 1 \<Longrightarrow> snd (add_scan now period cb ud ids ctx) = ctx"
  by (induction ids) (simp_all add: Let_def split: if_splits)

lemma error_paths_leave_context:
  "fst (z_wdt_add now ctx period cb ud) = - 1 \<Longrightarrow> snd (z_wdt_add now ctx period cb ud) = ctx"
  "fst (z_wdt_delete ctx channel_id) = - 1 \<Longrightarrow> snd (z_wdt_delete ctx channel_id) = ctx"
  "fst (z_wdt_feed now ctx channel_id) = - 1 \<Longrightarrow> snd (z_wdt_feed now ctx channel_id) = ctx"
  by (auto simp: z_wdt_add_def z_wdt_delete_def z_wdt_feed_def add_scan_unchanged Let_def
        split: if_splits)

text \<open>
  Claim C8 says that every error path leaves the context unchanged, that of a failed
  \<^verbatim>\<open>z_wdt_init\<close> included. \<^verbatim>\<open>z_wdt_init\<close> resets the context and sets
  \<open>initialized\<close> and \<open>timer_running\<close> before it calls \<^verbatim>\<open>watchdog_os_init()\<close>, and
  returns -1 without undoing this when that call fails: on the zeroed context with a
  failing OS layer it returns -1 and leaves a context marked initialized with
  monitoring enabled, on which the next \<^verbatim>\<open>z_wdt_init\<close> returns 0 and does nothing.
\<close>

theorem failed_init_marks_context_initialized:
  "\<not> initialized zero_context \<and> \<not> timer_running zero_context
   \<and> fst (z_wdt_init (- 1) zero_context) = - 1
   \<and> snd (z_wdt_init (- 1) zero_context) \<noteq> zero_context
   \<and> initialized (snd (z_wdt_init (- 1) zero_context))
   \<and> timer_running (snd (z_wdt_init (- 1) zero_context))
   \<and> z_wdt_init (- 1) (snd (z_wdt_init (- 1) zero_context))
     = (0, snd (z_wdt_init (- 1) zero_context))"
proof -
  have "initialized (snd (z_wdt_init (- 1) zero_context))"
    by (simp add: z_wdt_init_def zero_context_def Let_def)
  moreover have "\<not> initialized zero_context" "\<not> timer_running zero_context"
    by (simp_all add: zero_context_def)
  ultimately have "snd (z_wdt_init (- 1) zero_context) \<noteq> zero_context"
    by auto
  then show ?thesis
    by (simp add: z_wdt_init_def zero_context_def Let_def)
qed

end
